theory Spec2Isabelle
  imports Main "HOL-Library.AList"
begin

section \<open>Domain models\<close>

text \<open>
  \<^verbatim>\<open>models/product.py\<close>: the enum \<^verbatim>\<open>StockStatus\<close> and the dataclass
  \<^verbatim>\<open>Product\<close>. Python's \<^verbatim>\<open>int\<close> is unbounded, so counters are \<open>int\<close>.
\<close>

datatype StockStatus = IN_STOCK | LOW_STOCK | OUT_OF_STOCK

record Product =
  product_id :: string
  name :: string
  quantity :: int
  reserved :: int
  warehouse :: string

text \<open>The property \<^verbatim>\<open>Product.available\<close>: \<^verbatim>\<open>max(0, self.quantity - self.reserved)\<close>.\<close>

definition available :: "Product \<Rightarrow> int" where
  "available p = max 0 (quantity p - reserved p)"

text \<open>
  The property \<^verbatim>\<open>Product.status\<close>; the bound \<^verbatim>\<open>10\<close> is written out in the
  source.
\<close>

definition status :: "Product \<Rightarrow> StockStatus" where
  "status p =
     (if available p \<le> 0 then OUT_OF_STOCK
      else if available p < 10 then LOW_STOCK
      else IN_STOCK)"

text \<open>
  \<^verbatim>\<open>models/reservation.py\<close>. A timestamp is an aware UTC \<^verbatim>\<open>datetime\<close>; it is
  modelled by its number of microseconds since the epoch, an \<open>int\<close>, so that
  \<^verbatim>\<open>timedelta(seconds=n)\<close> is \<open>n * 1000000\<close> and comparison is \<open><\<close>. The
  range limits of the two types are written out where the store computes with them. The field
  \<^verbatim>\<open>expires_at\<close> defaults to \<^verbatim>\<open>None\<close>, hence the option. The fields
  \<^verbatim>\<open>product_id\<close>, \<^verbatim>\<open>quantity\<close> and \<^verbatim>\<open>status\<close> of the reservation carry
  the prefix \<open>res_\<close>, the plain names being those of the product.
\<close>

datatype ReservationStatus = ACTIVE | FULFILLED | EXPIRED | CANCELLED

record Reservation =
  res_product_id :: string
  res_quantity :: int
  order_id :: string
  reservation_id :: string
  res_status :: ReservationStatus
  created_at :: int
  expires_at :: "int option"

text \<open>
  \<^verbatim>\<open>Reservation.is_expired\<close> reads the clock once; the reading is the argument
  \<open>now\<close>.
\<close>

definition is_expired :: "int \<Rightarrow> Reservation \<Rightarrow> bool" where
  "is_expired now res =
     (case expires_at res of None \<Rightarrow> False | Some e \<Rightarrow> now > e)"

section \<open>The in-memory store\<close>

text \<open>
  \<^verbatim>\<open>store/memory.py\<close>, class \<^verbatim>\<open>InMemoryInventoryStore\<close>. The product
  dictionary is a map. The reservation dictionary is an association list in insertion
  order with distinct keys, as a Python \<^verbatim>\<open>dict\<close> is: the sweep walks its values in
  that order, and assignment to a key that is present replaces the value in place
  (\<open>AList.update\<close>). Every method runs under the one lock, so a method is a function
  from the state to a result and the next state.
\<close>

record store =
  products :: "string \<rightharpoonup> Product"
  reservations :: "(string \<times> Reservation) list"
  reservation_ttl :: int

definition catalog :: "(string \<times> string \<times> int) list" where
  "catalog =
     [(''OLJCESPC7Z'', ''National Park Foundation Explorascope'', 100),
      (''66VCHSJNUP'', ''Starsense Explorer Telescope'', 50),
      (''1YMWWN1N4O'', ''Roof Binoculars'', 200),
      (''L9ECAV7KIM'', ''Eclipsmart Travel Refractor Telescope'', 30),
      (''2ZYFJ3GM2N'', ''Solar System Color Imager'', 75),
      (''0PUK6V6EV0'', ''Solar Filter'', 150),
      (''LS4PSXUNUM'', ''Red Flashlight'', 500),
      (''9SIQT8TOJO'', ''Optical Tube Assembly'', 25),
      (''6E92ZMYYFZ'', ''The Comet Book'', 300),
      (''HQTGWGPNH4'', ''Lens Cleaning Kit'', 1000)]"

text \<open>
  The constructor of \<^verbatim>\<open>Product\<close> with its defaults \<^verbatim>\<open>reserved=0\<close> and
  \<^verbatim>\<open>warehouse="us-west-2a"\<close>.
\<close>

definition new_product :: "string \<Rightarrow> string \<Rightarrow> int \<Rightarrow> Product" where
  "new_product pid nm qty =
     \<lparr>product_id = pid, name = nm, quantity = qty, reserved = 0,
      warehouse = ''us-west-2a''\<rparr>"

fun seed_catalog :: "(string \<times> string \<times> int) list \<Rightarrow> (string \<rightharpoonup> Product) \<Rightarrow> (string \<rightharpoonup> Product)" where
  "seed_catalog [] ps = ps"
| "seed_catalog ((pid, nm, qty) # rest) ps =
     seed_catalog rest (ps(pid \<mapsto> new_product pid nm qty))"

text \<open>\<^verbatim>\<open>__init__\<close>: empty dictionaries, the time-to-live in seconds, then the seed.\<close>

definition InMemoryInventoryStore :: "int \<Rightarrow> store" where
  "InMemoryInventoryStore reservation_ttl_seconds =
     \<lparr>products = seed_catalog catalog Map.empty, reservations = [],
      reservation_ttl = reservation_ttl_seconds\<rparr>"

definition get_product :: "store \<Rightarrow> string \<Rightarrow> Product option" where
  "get_product s pid = products s pid"

definition get_reservation :: "store \<Rightarrow> string \<Rightarrow> Reservation option" where
  "get_reservation s rid = map_of (reservations s) rid"

text \<open>
  The arithmetic of \<^verbatim>\<open>datetime\<close> is partial: it raises \<^verbatim>\<open>OverflowError\<close> outside
  the range of the type. \<^verbatim>\<open>timedelta(seconds=n)\<close> normalises to days by floor
  division and refuses more than 999999999 days in magnitude. An aware UTC
  \<^verbatim>\<open>datetime\<close> lies between 0001-01-01 00:00:00 and 9999-12-31 23:59:59.999999,
  which in microseconds since the epoch are \<open>datetime_min\<close> and \<open>datetime_max\<close>, and
  the sum of a \<^verbatim>\<open>datetime\<close> and a \<^verbatim>\<open>timedelta\<close> is refused outside these bounds.
\<close>

datatype py_error = OverflowError

definition timedelta_seconds :: "int \<Rightarrow> py_error + int" where
  "timedelta_seconds n =
     (if n div 86400 < - 999999999 \<or> 999999999 < n div 86400 then Inl OverflowError
      else Inr (n * 1000000))"

definition datetime_min :: int where
  "datetime_min = - 62135596800000000"

definition datetime_max :: int where
  "datetime_max = 253402300799999999"

definition datetime_add :: "int \<Rightarrow> int \<Rightarrow> py_error + int" where
  "datetime_add t d =
     (if t + d < datetime_min \<or> datetime_max < t + d then Inl OverflowError
      else Inr (t + d))"

text \<open>
  The expression \<^verbatim>\<open>datetime.now(timezone.utc) + timedelta(seconds=self._reservation_ttl)\<close>
  of \<^verbatim>\<open>reserve\<close>, at the clock reading \<open>now\<close>.
\<close>

definition expiry_time :: "int \<Rightarrow> int \<Rightarrow> py_error + int" where
  "expiry_time now ttl =
     (case timedelta_seconds ttl of
        Inl e \<Rightarrow> Inl e
      | Inr d \<Rightarrow> datetime_add now d)"

text \<open>
  \<^verbatim>\<open>reserve\<close>. Its three reads of the outside world are arguments, in the order the
  source makes them: \<open>now_expiry\<close> is the \<^verbatim>\<open>datetime.now\<close> evaluated in the argument
  \<^verbatim>\<open>expires_at=...\<close> before the constructor runs; \<open>new_id\<close> is the
  \<^verbatim>\<open>uuid4\<close> string and \<open>now_created\<close> the second \<^verbatim>\<open>datetime.now\<close>, both
  drawn by the default factories inside the constructor. The outcome is \<open>Inr None\<close>
  on both failure paths, where the source returns \<^verbatim>\<open>None\<close>, and
  \<open>Inr (Some reservation)\<close> on success. The source adds the quantity to the counter
  before it computes the expiry time, so when that computation raises, the outcome is
  \<open>Inl OverflowError\<close> with the counter already raised and no reservation stored;
  the lock is released and the store lives on in that state.
\<close>

definition reserve ::
  "store \<Rightarrow> string \<Rightarrow> int \<Rightarrow> string \<Rightarrow> int \<Rightarrow> string \<Rightarrow> int
   \<Rightarrow> (py_error + Reservation option) \<times> store" where
  "reserve s pid qty oid now_expiry new_id now_created =
     (case products s pid of
        None \<Rightarrow> (Inr None, s)
      | Some product \<Rightarrow>
          if available product < qty then (Inr None, s)
          else
            let product' = product\<lparr>reserved := reserved product + qty\<rparr>;
                s' = s\<lparr>products := (products s)(pid \<mapsto> product')\<rparr>
            in (case expiry_time now_expiry (reservation_ttl s) of
                  Inl e \<Rightarrow> (Inl e, s')
                | Inr expires \<Rightarrow>
                    let reservation =
                          \<lparr>res_product_id = pid, res_quantity = qty, order_id = oid,
                           reservation_id = new_id, res_status = ACTIVE,
                           created_at = now_created, expires_at = Some expires\<rparr>
                    in (Inr (Some reservation),
                        s'\<lparr>reservations :=
                             AList.update new_id reservation (reservations s)\<rparr>)))"

text \<open>\<^verbatim>\<open>release\<close>: a bare adjustment of the counter, clamped at zero.\<close>

definition release :: "store \<Rightarrow> string \<Rightarrow> int \<Rightarrow> bool \<times> store" where
  "release s pid qty =
     (case products s pid of
        None \<Rightarrow> (False, s)
      | Some product \<Rightarrow>
          (True,
           s\<lparr>products := (products s)(pid \<mapsto> product\<lparr>reserved := max 0 (reserved product - qty)\<rparr>)\<rparr>))"

text \<open>
  The body of the sweep for one stale reservation: the guarded decrement of its product
  (\<^verbatim>\<open>if product:\<close> is true of every \<^verbatim>\<open>Product\<close> object, so the guard is the
  presence of the key).
\<close>

definition give_back :: "Reservation \<Rightarrow> (string \<rightharpoonup> Product) \<Rightarrow> (string \<rightharpoonup> Product)" where
  "give_back res ps =
     (case ps (res_product_id res) of
        None \<Rightarrow> ps
      | Some product \<Rightarrow>
          ps(res_product_id res \<mapsto> product\<lparr>reserved := max 0 (reserved product - res_quantity res)\<rparr>))"

text \<open>
  The loop of \<^verbatim>\<open>expire_reservations\<close> over \<^verbatim>\<open>list(self._reservations.values())\<close>.
  The source takes no time argument: \<^verbatim>\<open>is_expired\<close> is called for each reservation
  whose status is \<^verbatim>\<open>ACTIVE\<close> (the \<^verbatim>\<open>and\<close> short-circuits on the others), and
  it reads the clock afresh unless \<^verbatim>\<open>expires_at\<close> is \<^verbatim>\<open>None\<close>, where it returns
  \<^verbatim>\<open>False\<close> at once. \<open>clk i\<close> is the \<open>i\<close>-th reading of the clock during the call,
  and \<open>i\<close> counts the readings made so far, so it advances exactly for the active
  reservations that have an expiry time. The loop mutates the reservation objects in
  place, so the table keeps its keys and order.
\<close>

fun expire_loop ::
  "(nat \<Rightarrow> int) \<Rightarrow> nat \<Rightarrow> (string \<times> Reservation) list \<Rightarrow> (string \<rightharpoonup> Product) \<Rightarrow> int
   \<Rightarrow> (string \<times> Reservation) list \<times> (string \<rightharpoonup> Product) \<times> int" where
  "expire_loop clk i [] ps expired_count = ([], ps, expired_count)"
| "expire_loop clk i ((k, res) # rest) ps expired_count =
     (if res_status res = ACTIVE then
        (case expires_at res of
           None \<Rightarrow>
             (case expire_loop clk i rest ps expired_count of
                (rest', ps', n) \<Rightarrow> ((k, res) # rest', ps', n))
         | Some e \<Rightarrow>
             if is_expired (clk i) res then
               (case expire_loop clk (Suc i) rest (give_back res ps) (expired_count + 1) of
                  (rest', ps', n) \<Rightarrow> ((k, res\<lparr>res_status := EXPIRED\<rparr>) # rest', ps', n))
             else
               (case expire_loop clk (Suc i) rest ps expired_count of
                  (rest', ps', n) \<Rightarrow> ((k, res) # rest', ps', n)))
      else
        (case expire_loop clk i rest ps expired_count of
           (rest', ps', n) \<Rightarrow> ((k, res) # rest', ps', n)))"

definition expire_reservations :: "store \<Rightarrow> (nat \<Rightarrow> int) \<Rightarrow> int \<times> store" where
  "expire_reservations s clk =
     (case expire_loop clk 0 (reservations s) (products s) 0 of
        (rs', ps', expired_count) \<Rightarrow>
          (expired_count, s\<lparr>products := ps', reservations := rs'\<rparr>))"

section \<open>The request layer\<close>

text \<open>
  \<^verbatim>\<open>api/validators.py\<close> and the route \<^verbatim>\<open>reserve_stock\<close> of
  \<^verbatim>\<open>api/routes.py\<close>. The JSON body is modelled for the bodies whose fields, when
  present, have the types the route expects: a string \<^verbatim>\<open>product_id\<close>, an integer
  \<^verbatim>\<open>quantity\<close>, a string \<^verbatim>\<open>order_id\<close>; \<open>None\<close> is an absent key. Tracing
  and metrics do not touch the store and are left out.
\<close>

record reserve_request =
  req_product_id :: "string option"
  req_quantity :: "int option"
  req_order_id :: "string option"

text \<open>
  \<^verbatim>\<open>not data.get("product_id")\<close> is true of an absent key and of the empty string;
  \<^verbatim>\<open>data.get("quantity", 1)\<close> defaults to 1.
\<close>

definition validate_reserve_request :: "reserve_request \<Rightarrow> string option" where
  "validate_reserve_request data =
     (if req_product_id data = None \<or> req_product_id data = Some [] then
        Some ''product_id is required''
      else
        let quantity = (case req_quantity data of None \<Rightarrow> 1 | Some q \<Rightarrow> q) in
        if quantity < 1 then Some ''quantity must be a positive integer''
        else if quantity > 50 then Some ''quantity exceeds maximum of 50 per reservation''
        else None)"

text \<open>
  The responses of the route, named by their HTTP status: 400 with the validator's
  message, 404, 409 with \<^verbatim>\<open>available\<close> and \<^verbatim>\<open>requested\<close>, 201 with the
  reservation. \<open>HTTP_500\<close> is the answer to an exception that leaves the view: the
  \<^verbatim>\<open>OverflowError\<close> of the store, and the \<^verbatim>\<open>KeyError\<close> of
  \<^verbatim>\<open>data["product_id"]\<close> on an absent key, which the validator excludes.
\<close>

datatype response =
  HTTP_400 string
| HTTP_404
| HTTP_409 int int
| HTTP_201 Reservation
| HTTP_500

text \<open>
  The route validates, calls the store, and on \<^verbatim>\<open>None\<close> looks the product up a
  second time to tell the two failures apart.
\<close>

definition reserve_stock ::
  "store \<Rightarrow> reserve_request \<Rightarrow> int \<Rightarrow> string \<Rightarrow> int \<Rightarrow> response \<times> store" where
  "reserve_stock s data now_expiry new_id now_created =
     (case validate_reserve_request data of
        Some error \<Rightarrow> (HTTP_400 error, s)
      | None \<Rightarrow>
          (case req_product_id data of
             None \<Rightarrow> (HTTP_500, s)
           | Some pid \<Rightarrow>
               let quantity = (case req_quantity data of None \<Rightarrow> 1 | Some q \<Rightarrow> q);
                   oid = (case req_order_id data of None \<Rightarrow> [] | Some v \<Rightarrow> v)
               in (case reserve s pid quantity oid now_expiry new_id now_created of
                     (Inl e, s') \<Rightarrow> (HTTP_500, s')
                   | (Inr None, s') \<Rightarrow>
                       (case get_product s' pid of
                          None \<Rightarrow> (HTTP_404, s')
                        | Some product \<Rightarrow> (HTTP_409 (available product) quantity, s'))
                   | (Inr (Some reservation), s') \<Rightarrow> (HTTP_201 reservation, s'))))"

section \<open>Sequences of store operations\<close>

text \<open>
  The three mutating methods as one datatype of calls, each with its arguments and its
  reads of the outside world, and the state after a sequence of calls. A call of
  \<^verbatim>\<open>reserve\<close> that raises leaves its state behind like any other, and the
  sequence goes on from there.
\<close>

datatype operation =
  Reserve string int string int string int
| Release string int
| Expire "nat \<Rightarrow> int"

fun apply_operation :: "store \<Rightarrow> operation \<Rightarrow> store" where
  "apply_operation s (Reserve pid qty oid now_expiry new_id now_created) =
     snd (reserve s pid qty oid now_expiry new_id now_created)"
| "apply_operation s (Release pid qty) = snd (release s pid qty)"
| "apply_operation s (Expire clk) = snd (expire_reservations s clk)"

definition run :: "store \<Rightarrow> operation list \<Rightarrow> store" where
  "run s ops = foldl apply_operation s ops"

text \<open>The quantity argument of a call; the sweep has none.\<close>

fun quantity_argument :: "operation \<Rightarrow> int option" where
  "quantity_argument (Reserve pid qty oid now_expiry new_id now_created) = Some qty"
| "quantity_argument (Release pid qty) = Some qty"
| "quantity_argument (Expire clk) = None"

definition nonnegative_quantity :: "operation \<Rightarrow> bool" where
  "nonnegative_quantity op = (case quantity_argument op of None \<Rightarrow> True | Some q \<Rightarrow> 0 \<le> q)"

section \<open>Properties\<close>

text \<open>
  The invariant of the product ledger: every product has
  \<open>0 \<le> reserved \<le> quantity\<close>. It is stated on the dictionary and on the store.
\<close>

definition ledger_ok :: "(string \<rightharpoonup> Product) \<Rightarrow> bool" where
  "ledger_ok ps = (\<forall>pid p. ps pid = Some p \<longrightarrow> 0 \<le> reserved p \<and> reserved p \<le> quantity p)"

definition ledger_invariant :: "store \<Rightarrow> bool" where
  "ledger_invariant s = ledger_ok (products s)"

text \<open>No reservation of the table holds a negative quantity.\<close>

definition table_nonnegative :: "(string \<times> Reservation) list \<Rightarrow> bool" where
  "table_nonnegative rs = (\<forall>kr \<in> set rs. 0 \<le> res_quantity (snd kr))"

text \<open>
  A reservation is stale at \<open>now\<close> when the sweep would pick it: its status is
  \<^verbatim>\<open>ACTIVE\<close> and its expiry time is strictly before \<open>now\<close>.
  \<open>stale_reservations\<close> lists the stale reservations of a table in table order, and
  \<open>mark_expired\<close> is the transition \<^verbatim>\<open>ACTIVE\<close> to \<^verbatim>\<open>EXPIRED\<close> of a stale
  reservation, the identity on every other one.
\<close>

definition stale :: "int \<Rightarrow> Reservation \<Rightarrow> bool" where
  "stale now res = (res_status res = ACTIVE \<and> is_expired now res)"

definition stale_reservations :: "int \<Rightarrow> (string \<times> Reservation) list \<Rightarrow> Reservation list" where
  "stale_reservations now rs = filter (stale now) (map snd rs)"

definition mark_expired :: "int \<Rightarrow> Reservation \<Rightarrow> Reservation" where
  "mark_expired now res = (if stale now res then res\<lparr>res_status := EXPIRED\<rparr> else res)"

subsection \<open>The sweep under a clock that stands still\<close>

lemma expire_loop_constant_clock:
  "expire_loop (\<lambda>_. now) i rs ps n =
     (map (\<lambda>(k, r). (k, mark_expired now r)) rs,
      fold give_back (stale_reservations now rs) ps,
      n + int (length (stale_reservations now rs)))"
proof (induction rs arbitrary: i ps n)
  case Nil
  show ?case by (simp add: stale_reservations_def)
next
  case (Cons kr rs)
  obtain k r where kr: "kr = (k, r)" by (cases kr)
  show ?case
    unfolding kr
    by (simp add: Cons.IH stale_reservations_def stale_def mark_expired_def is_expired_def
        split: option.splits)
qed

subsection \<open>Preservation of the ledger invariant\<close>

lemma give_back_ledger_ok:
  assumes "ledger_ok ps" and "0 \<le> res_quantity res"
  shows "ledger_ok (give_back res ps)"
proof (cases "ps (res_product_id res)")
  case None
  with assms(1) show ?thesis by (simp add: give_back_def)
next
  case (Some p)
  with assms(1) have p: "0 \<le> reserved p \<and> reserved p \<le> quantity p"
    unfolding ledger_ok_def by blast
  define p' where "p' = p\<lparr>reserved := max 0 (reserved p - res_quantity res)\<rparr>"
  from p assms(2) have p': "0 \<le> reserved p' \<and> reserved p' \<le> quantity p'"
    by (simp add: p'_def)
  have g: "give_back res ps = ps(res_product_id res \<mapsto> p')"
    by (simp add: give_back_def Some p'_def)
  show ?thesis
    unfolding ledger_ok_def g
  proof (intro allI impI)
    fix pid q
    assume "(ps(res_product_id res \<mapsto> p')) pid = Some q"
    then have "q = p' \<or> ps pid = Some q" by (auto split: if_splits)
    with p' assms(1) show "0 \<le> reserved q \<and> reserved q \<le> quantity q"
      unfolding ledger_ok_def by blast
  qed
qed

lemma expire_loop_ledger_ok:
  "ledger_ok ps \<Longrightarrow> table_nonnegative rs \<Longrightarrow>
   ledger_ok (fst (snd (expire_loop clk i rs ps n))) \<and>
   table_nonnegative (fst (expire_loop clk i rs ps n))"
proof (induction rs arbitrary: i ps n)
  case Nil
  then show ?case by simp
next
  case (Cons kr rs)
  obtain k r where kr: "kr = (k, r)" by (cases kr)
  from Cons.prems have q: "0 \<le> res_quantity r" and t: "table_nonnegative rs"
    by (simp_all add: table_nonnegative_def kr)
  have g: "ledger_ok (give_back r ps)"
    using Cons.prems(1) q by (rule give_back_ledger_ok)
  consider (expired) e where "res_status r = ACTIVE" "expires_at r = Some e" "is_expired (clk i) r"
    | (fresh) e where "res_status r = ACTIVE" "expires_at r = Some e" "\<not> is_expired (clk i) r"
    | (undated) "res_status r = ACTIVE" "expires_at r = None"
    | (inactive) "res_status r \<noteq> ACTIVE"
    by (cases "expires_at r") auto
  then show ?case
  proof cases
    case expired
    obtain rs' ps' n' where e: "expire_loop clk (Suc i) rs (give_back r ps) (n + 1) = (rs', ps', n')"
      by (cases "expire_loop clk (Suc i) rs (give_back r ps) (n + 1)")
    from Cons.IH [OF g t, of "Suc i" "n + 1"] e q expired show ?thesis
      by (simp add: kr table_nonnegative_def)
  next
    case fresh
    obtain rs' ps' n' where e: "expire_loop clk (Suc i) rs ps n = (rs', ps', n')"
      by (cases "expire_loop clk (Suc i) rs ps n")
    from Cons.IH [OF Cons.prems(1) t, of "Suc i" n] e q fresh show ?thesis
      by (simp add: kr table_nonnegative_def)
  next
    case undated
    obtain rs' ps' n' where e: "expire_loop clk i rs ps n = (rs', ps', n')"
      by (cases "expire_loop clk i rs ps n")
    from Cons.IH [OF Cons.prems(1) t, of i n] e q undated show ?thesis
      by (simp add: kr table_nonnegative_def)
  next
    case inactive
    obtain rs' ps' n' where e: "expire_loop clk i rs ps n = (rs', ps', n')"
      by (cases "expire_loop clk i rs ps n")
    from Cons.IH [OF Cons.prems(1) t, of i n] e q inactive show ?thesis
      by (simp add: kr table_nonnegative_def)
  qed
qed

lemma set_update_subset: "set (AList.update k v al) \<subseteq> insert (k, v) (set al)"
  by (induction al) auto

lemma seed_catalog_ledger_ok:
  "ledger_ok ps \<Longrightarrow> \<forall>e \<in> set c. 0 \<le> snd (snd e) \<Longrightarrow> ledger_ok (seed_catalog c ps)"
proof (induction c arbitrary: ps)
  case Nil
  then show ?case by simp
next
  case (Cons e c)
  obtain pid nm qty where e: "e = (pid, nm, qty)" by (cases e)
  from Cons.prems have "0 \<le> qty" by (simp add: e)
  with Cons.prems(1) have "ledger_ok (ps(pid \<mapsto> new_product pid nm qty))"
    by (auto simp: ledger_ok_def new_product_def)
  with Cons show ?case by (simp add: e)
qed

lemma initial_ledger_ok: "ledger_ok (products (InMemoryInventoryStore ttl))"
proof -
  have "\<forall>e \<in> set catalog. 0 \<le> snd (snd e)" by (simp add: catalog_def)
  moreover have "ledger_ok Map.empty" by (simp add: ledger_ok_def)
  ultimately show ?thesis
    by (simp add: InMemoryInventoryStore_def seed_catalog_ledger_ok)
qed

lemma apply_operation_preserves:
  assumes "ledger_ok (products s)" and "table_nonnegative (reservations s)"
    and "nonnegative_quantity op"
  shows "ledger_ok (products (apply_operation s op)) \<and>
         table_nonnegative (reservations (apply_operation s op))"
proof (cases op)
  case (Reserve pid qty oid ne nid nc)
  with assms(3) have q: "0 \<le> qty" by (simp add: nonnegative_quantity_def)
  show ?thesis
  proof (cases "products s pid")
    case None
    with assms Reserve show ?thesis by (simp add: reserve_def)
  next
    case (Some p)
    show ?thesis
    proof (cases "available p < qty")
      case True
      with assms Reserve Some show ?thesis by (simp add: reserve_def)
    next
      case False
      from assms(1) Some have p: "0 \<le> reserved p" "reserved p \<le> quantity p"
        by (auto simp: ledger_ok_def)
      from False q p have "reserved p + qty \<le> quantity p"
        by (auto simp: available_def max_def split: if_splits)
      with assms(1) p q have l: "ledger_ok ((products s)(pid \<mapsto> p\<lparr>reserved := reserved p + qty\<rparr>))"
        by (auto simp: ledger_ok_def)
      have t: "table_nonnegative (AList.update nid r (reservations s))" if "0 \<le> res_quantity r" for r
        using assms(2) that set_update_subset [of nid r "reservations s"]
        by (auto simp: table_nonnegative_def)
      from l t q assms(2) False Some Reserve show ?thesis
        by (simp add: reserve_def Let_def split: sum.splits)
    qed
  qed
next
  case (Release pid qty)
  with assms(3) have q: "0 \<le> qty" by (simp add: nonnegative_quantity_def)
  show ?thesis
  proof (cases "products s pid")
    case None
    with assms Release show ?thesis by (simp add: release_def)
  next
    case (Some p)
    from assms(1) Some have p: "0 \<le> reserved p" "reserved p \<le> quantity p"
      by (auto simp: ledger_ok_def)
    with assms(1) q have "ledger_ok ((products s)(pid \<mapsto> p\<lparr>reserved := max 0 (reserved p - qty)\<rparr>))"
      by (auto simp: ledger_ok_def)
    with assms(2) Some Release show ?thesis by (simp add: release_def)
  qed
next
  case (Expire clk)
  obtain rs' ps' n' where e: "expire_loop clk 0 (reservations s) (products s) 0 = (rs', ps', n')"
    by (cases "expire_loop clk 0 (reservations s) (products s) 0")
  from expire_loop_ledger_ok [OF assms(1,2), of clk 0 0] e Expire show ?thesis
    by (simp add: expire_reservations_def)
qed

lemma run_preserves:
  "ledger_ok (products s) \<Longrightarrow> table_nonnegative (reservations s) \<Longrightarrow>
   \<forall>op \<in> set ops. nonnegative_quantity op \<Longrightarrow>
   ledger_ok (products (run s ops)) \<and> table_nonnegative (reservations (run s ops))"
proof (induction ops arbitrary: s)
  case Nil
  then show ?case by (simp add: run_def)
next
  case (Cons op ops)
  from Cons.prems have "nonnegative_quantity op" by simp
  from apply_operation_preserves [OF Cons.prems(1,2) this] Cons.prems(3) Cons.IH [of "apply_operation s op"]
  show ?case by (simp add: run_def)
qed

subsection \<open>A second sweep after the first\<close>

lemma expire_reservations_constant_clock:
  "expire_reservations s (\<lambda>_. now) =
     (int (length (stale_reservations now (reservations s))),
      s\<lparr>products := fold give_back (stale_reservations now (reservations s)) (products s),
        reservations := map (\<lambda>(k, r). (k, mark_expired now r)) (reservations s)\<rparr>)"
  by (simp add: expire_reservations_def expire_loop_constant_clock)

lemma stale_mark_expired:
  "stale now2 (mark_expired now1 r) = (stale now2 r \<and> \<not> stale now1 r)"
  by (simp add: mark_expired_def stale_def is_expired_def)

lemma stale_reservations_marked:
  "stale_reservations now2 (map (\<lambda>(k, r). (k, mark_expired now1 r)) rs) =
     filter (\<lambda>r. stale now2 r \<and> \<not> stale now1 r) (map snd rs)"
proof (induction rs)
  case Nil
  show ?case by (simp add: stale_reservations_def)
next
  case (Cons kr rs)
  obtain k r where kr: "kr = (k, r)" by (cases kr)
  have "stale now2 r \<and> \<not> stale now1 r \<Longrightarrow> mark_expired now1 r = r"
    by (simp add: mark_expired_def)
  with Cons show ?case
    by (simp add: kr stale_reservations_def stale_mark_expired)
qed

lemma stale_later: "now1 \<le> now2 \<Longrightarrow> stale now1 r \<Longrightarrow> stale now2 r"
  by (auto simp: stale_def is_expired_def split: option.splits)

lemma stale_count_split:
  "now1 \<le> now2 \<Longrightarrow>
   length (filter (stale now1) xs) + length (filter (\<lambda>r. stale now2 r \<and> \<not> stale now1 r) xs) =
   length (filter (stale now2) xs)"
  by (induction xs) (auto dest: stale_later)

lemma mark_expired_twice:
  "now1 \<le> now2 \<Longrightarrow> mark_expired now2 (mark_expired now1 r) = mark_expired now2 r"
  using stale_later [of now1 now2 r]
  by (auto simp: mark_expired_def stale_def)

subsection \<open>The expiry time\<close>

lemma expiry_time_Inr:
  "expiry_time now ttl = Inr e \<longleftrightarrow>
     - 999999999 \<le> ttl div 86400 \<and> ttl div 86400 \<le> 999999999 \<and>
     datetime_min \<le> now + ttl * 1000000 \<and> now + ttl * 1000000 \<le> datetime_max \<and>
     e = now + ttl * 1000000"
  by (auto simp: expiry_time_def timedelta_seconds_def datetime_add_def)

lemma expiry_time_value: "expiry_time now ttl = Inr e \<Longrightarrow> e = now + ttl * 1000000"
  by (simp add: expiry_time_Inr)

subsection \<open>The three outcomes of a reservation\<close>





subsection \<open>Concrete stores\<close>


text \<open>The definitions that the concrete runs below unfold.\<close>

lemmas store_defs = InMemoryInventoryStore_def catalog_def new_product_def reserve_def
  release_def available_def status_def Let_def expiry_time_def timedelta_seconds_def
  datetime_add_def datetime_min_def datetime_max_def

lemmas route_defs = reserve_stock_def validate_reserve_request_def get_product_def

text \<open>A store with two reservations, one second of time-to-live, made at times 0 and 5 s.\<close>

lemma two_reservations_table:
  "reservations
     (snd (reserve (snd (reserve (InMemoryInventoryStore 1) ''OLJCESPC7Z'' 5 ''order-1'' 0 ''r1'' 0))
        ''OLJCESPC7Z'' 7 ''order-2'' 5000000 ''r2'' 5000000)) =
   [(''r1'', \<lparr>res_product_id = ''OLJCESPC7Z'', res_quantity = 5, order_id = ''order-1'',
              reservation_id = ''r1'', res_status = ACTIVE, created_at = 0,
              expires_at = Some 1000000\<rparr>),
    (''r2'', \<lparr>res_product_id = ''OLJCESPC7Z'', res_quantity = 7, order_id = ''order-2'',
              reservation_id = ''r2'', res_status = ACTIVE, created_at = 5000000,
              expires_at = Some 6000000\<rparr>)]"
  by (simp add: store_defs)

lemma two_reservations_product:
  "products
     (snd (reserve (snd (reserve (InMemoryInventoryStore 1) ''OLJCESPC7Z'' 5 ''order-1'' 0 ''r1'' 0))
        ''OLJCESPC7Z'' 7 ''order-2'' 5000000 ''r2'' 5000000)) ''OLJCESPC7Z'' =
   Some \<lparr>product_id = ''OLJCESPC7Z'', name = ''National Park Foundation Explorascope'',
         quantity = 100, reserved = 12, warehouse = ''us-west-2a''\<rparr>"
  by (simp add: store_defs)

section \<open>The claims\<close>

subsection \<open>C1: the ledger invariant\<close>

text \<open>
  Claim C1 says that \<open>0 \<le> reserved \<le> quantity\<close> holds for every product after every
  store operation, for every sequence of operations from the seeded catalog and for all
  integer quantity arguments. The store does not look at the sign of a quantity: a
  reservation of \<open>- 5\<close> passes the stock check and leaves \<open>reserved = - 5\<close>, and a
  release of \<open>- 1000\<close> leaves \<open>reserved = 1000\<close> on a product of quantity 100.
\<close>

theorem ledger_invariant_negative_quantity_counterexample:
  "map_option reserved
     (products (run (InMemoryInventoryStore 900) [Reserve ''OLJCESPC7Z'' (- 5) [] 0 ''r1'' 0])
        ''OLJCESPC7Z'') = Some (- 5) \<and>
   \<not> ledger_invariant
       (run (InMemoryInventoryStore 900) [Reserve ''OLJCESPC7Z'' (- 5) [] 0 ''r1'' 0]) \<and>
   map_option (\<lambda>p. (reserved p, quantity p))
     (products (run (InMemoryInventoryStore 900) [Release ''OLJCESPC7Z'' (- 1000)])
        ''OLJCESPC7Z'') = Some (1000, 100) \<and>
   \<not> ledger_invariant
       (run (InMemoryInventoryStore 900) [Release ''OLJCESPC7Z'' (- 1000)])"
proof -
  have a: "products (run (InMemoryInventoryStore 900) [Reserve ''OLJCESPC7Z'' (- 5) [] 0 ''r1'' 0]) ''OLJCESPC7Z''
        = Some (new_product ''OLJCESPC7Z'' ''National Park Foundation Explorascope'' 100\<lparr>reserved := - 5\<rparr>)"
    by (simp add: run_def store_defs)
  have b: "products (run (InMemoryInventoryStore 900) [Release ''OLJCESPC7Z'' (- 1000)]) ''OLJCESPC7Z''
        = Some (new_product ''OLJCESPC7Z'' ''National Park Foundation Explorascope'' 100\<lparr>reserved := 1000\<rparr>)"
    by (simp add: run_def store_defs)
  have n: "\<not> ledger_ok ps" if "ps pid = Some p" "reserved p < 0 \<or> quantity p < reserved p"
    for ps :: "string \<rightharpoonup> Product" and pid p
    using that unfolding ledger_ok_def by force
  have c: "\<not> ledger_ok (products (run (InMemoryInventoryStore 900) [Reserve ''OLJCESPC7Z'' (- 5) [] 0 ''r1'' 0]))"
    by (rule n [of "products (run (InMemoryInventoryStore 900) [Reserve ''OLJCESPC7Z'' (- 5) [] 0 ''r1'' 0])", OF a])
      (simp add: new_product_def)
  have d: "\<not> ledger_ok (products (run (InMemoryInventoryStore 900) [Release ''OLJCESPC7Z'' (- 1000)]))"
    by (rule n [of "products (run (InMemoryInventoryStore 900) [Release ''OLJCESPC7Z'' (- 1000)])", OF b])
      (simp add: new_product_def)
  from c d show ?thesis
    by (simp add: ledger_invariant_def a b new_product_def)
qed

text \<open>
  Claim C1 as amended: for every sequence of \<^verbatim>\<open>reserve\<close>, \<^verbatim>\<open>release\<close> and
  \<^verbatim>\<open>expire_reservations\<close> calls from the seeded catalog in which no quantity
  argument is negative, every product has \<open>0 \<le> reserved \<le> quantity\<close> after every call
  of the sequence (after each of its prefixes), whatever the time-to-live, the
  identifiers and the clock readings are.
\<close>

theorem ledger_invariant_nonnegative_quantities:
  assumes "\<forall>op \<in> set ops. nonnegative_quantity op"
  shows "\<forall>n. ledger_invariant (run (InMemoryInventoryStore ttl) (take n ops))"
proof
  fix n
  have "\<forall>op \<in> set (take n ops). nonnegative_quantity op"
    using assms by (meson in_set_takeD)
  moreover have "table_nonnegative (reservations (InMemoryInventoryStore ttl))"
    by (simp add: table_nonnegative_def InMemoryInventoryStore_def)
  ultimately show "ledger_invariant (run (InMemoryInventoryStore ttl) (take n ops))"
    using run_preserves [OF initial_ledger_ok, of ttl "take n ops"]
    by (simp add: ledger_invariant_def)
qed

theorem ledger_invariant_nonnegative_quantities_witness:
  "nonnegative_quantity (Reserve ''9SIQT8TOJO'' 20 ''order-1'' 0 ''r1'' 1) \<and>
   nonnegative_quantity (Release ''9SIQT8TOJO'' 30) \<and>
   nonnegative_quantity (Expire (\<lambda>_. 5000000)) \<and>
   ledger_invariant
     (run (InMemoryInventoryStore 1)
        [Reserve ''9SIQT8TOJO'' 20 ''order-1'' 0 ''r1'' 1, Release ''9SIQT8TOJO'' 30,
         Expire (\<lambda>_. 5000000)])"
  using ledger_invariant_nonnegative_quantities
    [of "[Reserve ''9SIQT8TOJO'' 20 ''order-1'' 0 ''r1'' 1, Release ''9SIQT8TOJO'' 30,
          Expire (\<lambda>_. 5000000)]" 1]
  by (auto simp: nonnegative_quantity_def dest: spec [of _ 3])

subsection \<open>C2: a quantity that is not positive\<close>

text \<open>
  Claim C2 says that \<^verbatim>\<open>reserve\<close> with a quantity \<open>\<le> 0\<close> on an existing product is a
  failure that changes nothing. The store has no such check: from the seeded catalog a
  reservation of \<open>- 5\<close> is granted, the counter moves from \<open>0\<close> to \<open>- 5\<close> and the
  reservation is stored.
\<close>

theorem reserve_nonpositive_quantity_counterexample:
  "(let s0 = InMemoryInventoryStore 900;
        (r, s1) = reserve s0 ''OLJCESPC7Z'' (- 5) ''order-1'' 0 ''r1'' 0
    in map_option reserved (products s0 ''OLJCESPC7Z'') = Some 0 \<and>
       reservations s0 = [] \<and>
       r = Inr (Some \<lparr>res_product_id = ''OLJCESPC7Z'', res_quantity = - 5,
                      order_id = ''order-1'', reservation_id = ''r1'', res_status = ACTIVE,
                      created_at = 0, expires_at = Some 900000000\<rparr>) \<and>
       map_option reserved (products s1 ''OLJCESPC7Z'') = Some (- 5) \<and>
       map (\<lambda>(k, r). (k, res_quantity r, res_status r)) (reservations s1) = [(''r1'', - 5, ACTIVE)])"
  by (simp add: store_defs)

text \<open>
  Claim C2 as amended: a reservation request whose quantity is an integer \<open>\<le> 0\<close> is a
  failure that changes nothing at the request layer. The route \<^verbatim>\<open>reserve_stock\<close>
  answers 400 with the validator's message before the store is called, so that no
  counter changes and no reservation is inserted.
\<close>

theorem reserve_stock_rejects_nonpositive_quantity:
  assumes "req_quantity data = Some q" and "q \<le> 0"
  shows "reserve_stock s data now_expiry new_id now_created =
           (HTTP_400 (if req_product_id data = None \<or> req_product_id data = Some []
                      then ''product_id is required''
                      else ''quantity must be a positive integer''), s)"
  using assms by (simp add: route_defs)

theorem reserve_stock_rejects_nonpositive_quantity_witness:
  "req_quantity \<lparr>req_product_id = Some ''OLJCESPC7Z'', req_quantity = Some (- 5), req_order_id = None\<rparr> = Some (- 5) \<and>
   (- 5 :: int) \<le> 0 \<and>
   reserve_stock (InMemoryInventoryStore 900)
     \<lparr>req_product_id = Some ''OLJCESPC7Z'', req_quantity = Some (- 5), req_order_id = None\<rparr>
     0 ''r1'' 0 =
     (HTTP_400 ''quantity must be a positive integer'', InMemoryInventoryStore 900)"
  using reserve_stock_rejects_nonpositive_quantity
    [of "\<lparr>req_product_id = Some ''OLJCESPC7Z'', req_quantity = Some (- 5), req_order_id = None\<rparr>"
        "- 5" "InMemoryInventoryStore 900" 0 "''r1''" 0]
  by simp

subsection \<open>C3: telling the two failures apart\<close>

text \<open>
  Claim C3 says that the result which \<^verbatim>\<open>reserve\<close> hands back distinguishes an absent
  product from insufficient stock and carries the available count. The store returns
  the bare \<^verbatim>\<open>None\<close> in both cases: on the seeded store a request for an unknown
  product and a request for 9999 units of a product with 25 available give the same
  result and the same state.
\<close>

theorem reserve_failures_same_result_counterexample:
  "products (InMemoryInventoryStore 900) ''NONEXISTENT'' = None \<and>
   map_option available (products (InMemoryInventoryStore 900) ''9SIQT8TOJO'') = Some 25 \<and>
   reserve (InMemoryInventoryStore 900) ''NONEXISTENT'' 9999 [] 0 ''r1'' 0 =
     (Inr None, InMemoryInventoryStore 900) \<and>
   reserve (InMemoryInventoryStore 900) ''9SIQT8TOJO'' 9999 [] 0 ''r1'' 0 =
     (Inr None, InMemoryInventoryStore 900)"
proof -
  have a: "products (InMemoryInventoryStore 900) ''NONEXISTENT'' = None"
    by (simp add: InMemoryInventoryStore_def catalog_def)
  have b: "products (InMemoryInventoryStore 900) ''9SIQT8TOJO'' =
      Some (new_product ''9SIQT8TOJO'' ''Optical Tube Assembly'' 25)"
    by (simp add: InMemoryInventoryStore_def catalog_def)
  show ?thesis
    by (simp add: a b reserve_def available_def new_product_def)
qed

text \<open>
  Claim C3 as amended: \<^verbatim>\<open>reserve\<close> returns \<^verbatim>\<open>None\<close> and leaves the store unchanged
  both when the product is absent and when its available stock is below the requested
  quantity. The route \<^verbatim>\<open>reserve_stock\<close> tells the two apart by looking the product
  up again: for a request that passes validation it answers 404 when the product is
  absent, and 409 carrying the product's current available count and the requested
  quantity when the stock is insufficient.
\<close>

theorem reserve_stock_tells_failures_apart:
  assumes "validate_reserve_request data = None"
    and "req_product_id data = Some pid"
    and "qty = (case req_quantity data of None \<Rightarrow> 1 | Some q \<Rightarrow> q)"
  shows "(products s pid = None \<longrightarrow>
            reserve s pid qty oid now_expiry new_id now_created = (Inr None, s) \<and>
            reserve_stock s data now_expiry new_id now_created = (HTTP_404, s)) \<and>
         (\<forall>p. products s pid = Some p \<and> available p < qty \<longrightarrow>
            reserve s pid qty oid now_expiry new_id now_created = (Inr None, s) \<and>
            reserve_stock s data now_expiry new_id now_created =
              (HTTP_409 (available p) qty, s))"
proof (intro conjI allI impI)
  assume "products s pid = None"
  then show "reserve s pid qty oid now_expiry new_id now_created = (Inr None, s)"
    by (simp add: reserve_def)
next
  assume n: "products s pid = None"
  then have "reserve s pid qty (case req_order_id data of None \<Rightarrow> [] | Some v \<Rightarrow> v)
      now_expiry new_id now_created = (Inr None, s)"
    by (simp add: reserve_def)
  with assms n show "reserve_stock s data now_expiry new_id now_created = (HTTP_404, s)"
    by (simp add: reserve_stock_def get_product_def)
next
  fix p assume "products s pid = Some p \<and> available p < qty"
  then show "reserve s pid qty oid now_expiry new_id now_created = (Inr None, s)"
    by (simp add: reserve_def)
next
  fix p assume p: "products s pid = Some p \<and> available p < qty"
  then have "reserve s pid qty (case req_order_id data of None \<Rightarrow> [] | Some v \<Rightarrow> v)
      now_expiry new_id now_created = (Inr None, s)"
    by (simp add: reserve_def)
  with assms p show "reserve_stock s data now_expiry new_id now_created =
      (HTTP_409 (available p) qty, s)"
    by (simp add: reserve_stock_def get_product_def)
qed

theorem reserve_stock_tells_failures_apart_witness:
  "validate_reserve_request
     \<lparr>req_product_id = Some ''NONEXISTENT'', req_quantity = Some 2, req_order_id = None\<rparr> = None \<and>
   validate_reserve_request
     \<lparr>req_product_id = Some ''9SIQT8TOJO'', req_quantity = Some 2, req_order_id = None\<rparr> = None \<and>
   products (snd (reserve (InMemoryInventoryStore 900) ''9SIQT8TOJO'' 25 [] 0 ''r1'' 0))
     ''NONEXISTENT'' = None \<and>
   map_option available
     (products (snd (reserve (InMemoryInventoryStore 900) ''9SIQT8TOJO'' 25 [] 0 ''r1'' 0))
        ''9SIQT8TOJO'') = Some 0 \<and>
   reserve_stock (snd (reserve (InMemoryInventoryStore 900) ''9SIQT8TOJO'' 25 [] 0 ''r1'' 0))
     \<lparr>req_product_id = Some ''NONEXISTENT'', req_quantity = Some 2, req_order_id = None\<rparr>
     0 ''r2'' 0 =
     (HTTP_404, snd (reserve (InMemoryInventoryStore 900) ''9SIQT8TOJO'' 25 [] 0 ''r1'' 0)) \<and>
   reserve_stock (snd (reserve (InMemoryInventoryStore 900) ''9SIQT8TOJO'' 25 [] 0 ''r1'' 0))
     \<lparr>req_product_id = Some ''9SIQT8TOJO'', req_quantity = Some 2, req_order_id = None\<rparr>
     0 ''r2'' 0 =
     (HTTP_409 0 2, snd (reserve (InMemoryInventoryStore 900) ''9SIQT8TOJO'' 25 [] 0 ''r1'' 0))"
proof -
  have va: "validate_reserve_request
      \<lparr>req_product_id = Some ''NONEXISTENT'', req_quantity = Some 2, req_order_id = None\<rparr> = None"
    by (simp add: validate_reserve_request_def)
  have vs: "validate_reserve_request
      \<lparr>req_product_id = Some ''9SIQT8TOJO'', req_quantity = Some 2, req_order_id = None\<rparr> = None"
    by (simp add: validate_reserve_request_def)
  have pa: "products (snd (reserve (InMemoryInventoryStore 900) ''9SIQT8TOJO'' 25 [] 0 ''r1'' 0))
      ''NONEXISTENT'' = None"
    by (simp add: store_defs)
  have ps: "products (snd (reserve (InMemoryInventoryStore 900) ''9SIQT8TOJO'' 25 [] 0 ''r1'' 0))
      ''9SIQT8TOJO'' =
      Some (new_product ''9SIQT8TOJO'' ''Optical Tube Assembly'' 25\<lparr>reserved := 25\<rparr>)"
    by (simp add: store_defs)
  have av: "available (new_product ''9SIQT8TOJO'' ''Optical Tube Assembly'' 25\<lparr>reserved := 25\<rparr>) = 0"
    by (simp add: available_def new_product_def)
  have a: "reserve_stock (snd (reserve (InMemoryInventoryStore 900) ''9SIQT8TOJO'' 25 [] 0 ''r1'' 0))
     \<lparr>req_product_id = Some ''NONEXISTENT'', req_quantity = Some 2, req_order_id = None\<rparr>
     0 ''r2'' 0 =
     (HTTP_404, snd (reserve (InMemoryInventoryStore 900) ''9SIQT8TOJO'' 25 [] 0 ''r1'' 0))"
    using reserve_stock_tells_failures_apart [OF va, of "''NONEXISTENT''" 2
        "snd (reserve (InMemoryInventoryStore 900) ''9SIQT8TOJO'' 25 [] 0 ''r1'' 0)" "[]" 0 "''r2''" 0] pa
    by simp
  have b: "reserve_stock (snd (reserve (InMemoryInventoryStore 900) ''9SIQT8TOJO'' 25 [] 0 ''r1'' 0))
     \<lparr>req_product_id = Some ''9SIQT8TOJO'', req_quantity = Some 2, req_order_id = None\<rparr>
     0 ''r2'' 0 =
     (HTTP_409 0 2, snd (reserve (InMemoryInventoryStore 900) ''9SIQT8TOJO'' 25 [] 0 ''r1'' 0))"
    using reserve_stock_tells_failures_apart [OF vs, of "''9SIQT8TOJO''" 2
        "snd (reserve (InMemoryInventoryStore 900) ''9SIQT8TOJO'' 25 [] 0 ''r1'' 0)" "[]" 0 "''r2''" 0] ps av
    by simp
  from ps av have m: "map_option available
     (products (snd (reserve (InMemoryInventoryStore 900) ''9SIQT8TOJO'' 25 [] 0 ''r1'' 0))
        ''9SIQT8TOJO'') = Some 0"
    by simp
  from va vs pa m a b show ?thesis
    by (intro conjI)
qed

subsection \<open>C4: a successful reservation\<close>

text \<open>
  Claim C4 says that, for every existing product with enough stock, \<^verbatim>\<open>reserve\<close>
  stores and returns a reservation whose \<open>expires_at\<close> equals \<open>created_at\<close> plus the
  time-to-live. Two things stand against it. The two fields come from two readings of
  the clock, \<open>expires_at\<close> from the one made at the call of the constructor and
  \<open>created_at\<close> from the one its default factory makes afterwards: with a time-to-live
  of 900 seconds and readings one microsecond apart the equality fails. And the expiry
  time is computed after the counter is raised: with a time-to-live of 1000000000000
  seconds the sum leaves the range of \<^verbatim>\<open>datetime\<close>, the call raises, the counter stays
  raised and no reservation is stored.
\<close>

theorem reserve_two_clock_readings_counterexample:
  "(let (r, s1) = reserve (InMemoryInventoryStore 900) ''OLJCESPC7Z'' 5 ''order-1'' 0 ''r1'' 1
    in r = Inr (Some \<lparr>res_product_id = ''OLJCESPC7Z'', res_quantity = 5,
                      order_id = ''order-1'', reservation_id = ''r1'', res_status = ACTIVE,
                      created_at = 1, expires_at = Some 900000000\<rparr>) \<and>
       map_sum id (map_option (\<lambda>res. expires_at res = Some (created_at res + 900 * 1000000))) r =
         Inr (Some False)) \<and>
   (let (r, s1) = reserve (InMemoryInventoryStore 1000000000000) ''OLJCESPC7Z'' 5 ''order-1'' 0 ''r1'' 1
    in r = Inl OverflowError \<and>
       map_option reserved (products s1 ''OLJCESPC7Z'') = Some 5 \<and>
       reservations s1 = [])"
  by (simp add: store_defs)

text \<open>
  Claim C4 as amended: for every existing product with \<open>available \<ge> quantity\<close>
  (\<open>quantity \<ge> 1\<close>), when the expiry time is a \<^verbatim>\<open>datetime\<close> within range,
  \<^verbatim>\<open>reserve\<close> adds exactly \<open>quantity\<close> to the product's \<open>reserved\<close> counter and
  touches no other product; it creates a reservation with status \<^verbatim>\<open>ACTIVE\<close>, the
  given product identifier, quantity and order identifier, the generated identifier,
  \<open>expires_at\<close> equal to the clock reading taken for it plus the time-to-live, and
  \<open>created_at\<close> equal to a second clock reading; it stores the reservation under its
  generated identifier, leaving the other keys of the table alone, and returns it.
  \<open>expires_at\<close> is \<open>created_at\<close> plus the time-to-live when the two readings
  coincide. What happens when the expiry time is out of range is left open.
\<close>

theorem reserve_success:
  assumes "products s pid = Some p" and "1 \<le> qty" and "qty \<le> available p"
    and "expiry_time now_expiry (reservation_ttl s) = Inr expires"
  shows "\<exists>r s1.
           reserve s pid qty oid now_expiry new_id now_created = (Inr (Some r), s1) \<and>
           r = \<lparr>res_product_id = pid, res_quantity = qty, order_id = oid,
                reservation_id = new_id, res_status = ACTIVE, created_at = now_created,
                expires_at = Some (now_expiry + reservation_ttl s * 1000000)\<rparr> \<and>
           products s1 = (products s)(pid \<mapsto> p\<lparr>reserved := reserved p + qty\<rparr>) \<and>
           get_reservation s1 new_id = Some r \<and>
           map_of (reservations s1) = (map_of (reservations s))(new_id \<mapsto> r) \<and>
           reservation_ttl s1 = reservation_ttl s \<and>
           (now_expiry = now_created \<longrightarrow>
              expires_at r = Some (created_at r + reservation_ttl s * 1000000))"
proof -
  from assms(4) have "expires = now_expiry + reservation_ttl s * 1000000"
    by (rule expiry_time_value)
  with assms show ?thesis
    by (simp add: reserve_def Let_def get_reservation_def update_conv')
qed

theorem reserve_success_witness:
  "products (InMemoryInventoryStore 900) ''OLJCESPC7Z'' =
     Some (new_product ''OLJCESPC7Z'' ''National Park Foundation Explorascope'' 100) \<and>
   (1 :: int) \<le> 5 \<and>
   (5 :: int) \<le> available (new_product ''OLJCESPC7Z'' ''National Park Foundation Explorascope'' 100) \<and>
   expiry_time 7 (reservation_ttl (InMemoryInventoryStore 900)) = Inr 900000007 \<and>
   reserve (InMemoryInventoryStore 900) ''OLJCESPC7Z'' 5 ''order-1'' 7 ''r1'' 7 =
     (Inr (Some \<lparr>res_product_id = ''OLJCESPC7Z'', res_quantity = 5, order_id = ''order-1'',
             reservation_id = ''r1'', res_status = ACTIVE, created_at = 7,
             expires_at = Some 900000007\<rparr>),
      snd (reserve (InMemoryInventoryStore 900) ''OLJCESPC7Z'' 5 ''order-1'' 7 ''r1'' 7)) \<and>
   map_option reserved
     (products (snd (reserve (InMemoryInventoryStore 900) ''OLJCESPC7Z'' 5 ''order-1'' 7 ''r1'' 7))
        ''OLJCESPC7Z'') = Some 5"
proof -
  have p: "products (InMemoryInventoryStore 900) ''OLJCESPC7Z'' =
      Some (new_product ''OLJCESPC7Z'' ''National Park Foundation Explorascope'' 100)"
    by (simp add: InMemoryInventoryStore_def catalog_def)
  have a: "(5 :: int) \<le> available (new_product ''OLJCESPC7Z'' ''National Park Foundation Explorascope'' 100)"
    by (simp add: available_def new_product_def)
  have t: "reservation_ttl (InMemoryInventoryStore 900) = 900"
    by (simp add: InMemoryInventoryStore_def)
  have e: "expiry_time 7 (reservation_ttl (InMemoryInventoryStore 900)) = Inr 900000007"
    by (simp add: t expiry_time_def timedelta_seconds_def datetime_add_def datetime_min_def
        datetime_max_def)
  from reserve_success [OF p _ a e, of "''order-1''" "''r1''" 7] p a t e show ?thesis
    by (auto simp: new_product_def)
qed

subsection \<open>C5: what one sweep does\<close>

text \<open>
  Claim C5: a call of \<^verbatim>\<open>expire_reservations\<close> at time \<open>now\<close> (every reading of the
  clock during the call is \<open>now\<close>) turns exactly the stale reservations, those with
  status \<^verbatim>\<open>ACTIVE\<close> and an expiry time strictly before \<open>now\<close>, to
  \<^verbatim>\<open>EXPIRED\<close>; it gives the quantity of each of them back to its product, the
  counter decreased and clamped at zero; it returns their number; and it leaves every
  other reservation, in particular one whose expiry time has not passed, as it was.
\<close>

theorem expire_reservations_stale_only:
  "expire_reservations s (\<lambda>_. now) =
     (int (length (stale_reservations now (reservations s))),
      s\<lparr>products := fold give_back (stale_reservations now (reservations s)) (products s),
        reservations := map (\<lambda>(k, r). (k, mark_expired now r)) (reservations s)\<rparr>) \<and>
   stale now res = (res_status res = ACTIVE \<and> (\<exists>e. expires_at res = Some e \<and> e < now)) \<and>
   mark_expired now res = (if stale now res then res\<lparr>res_status := EXPIRED\<rparr> else res) \<and>
   give_back res ps =
     (case ps (res_product_id res) of
        None \<Rightarrow> ps
      | Some p \<Rightarrow> ps(res_product_id res \<mapsto> p\<lparr>reserved := max 0 (reserved p - res_quantity res)\<rparr>))"
  by (auto simp: expire_reservations_constant_clock stale_def is_expired_def mark_expired_def
      give_back_def split: option.splits)

theorem expire_reservations_stale_only_witness:
  "fst (expire_reservations
     (snd (reserve (snd (reserve (InMemoryInventoryStore 1) ''OLJCESPC7Z'' 5 ''order-1'' 0 ''r1'' 0))
        ''OLJCESPC7Z'' 7 ''order-2'' 5000000 ''r2'' 5000000)) (\<lambda>_. 2000000)) = 1 \<and>
   map (\<lambda>(k, r). (k, res_status r, expires_at r))
     (reservations (snd (expire_reservations
       (snd (reserve (snd (reserve (InMemoryInventoryStore 1) ''OLJCESPC7Z'' 5 ''order-1'' 0 ''r1'' 0))
          ''OLJCESPC7Z'' 7 ''order-2'' 5000000 ''r2'' 5000000)) (\<lambda>_. 2000000)))) =
     [(''r1'', EXPIRED, Some 1000000), (''r2'', ACTIVE, Some 6000000)] \<and>
   map_option reserved
     (products (snd (expire_reservations
       (snd (reserve (snd (reserve (InMemoryInventoryStore 1) ''OLJCESPC7Z'' 5 ''order-1'' 0 ''r1'' 0))
          ''OLJCESPC7Z'' 7 ''order-2'' 5000000 ''r2'' 5000000)) (\<lambda>_. 2000000))) ''OLJCESPC7Z'') =
     Some 7"
proof -
  let ?s = "snd (reserve (snd (reserve (InMemoryInventoryStore 1) ''OLJCESPC7Z'' 5 ''order-1'' 0 ''r1'' 0))
        ''OLJCESPC7Z'' 7 ''order-2'' 5000000 ''r2'' 5000000)"
  have st: "stale_reservations 2000000 (reservations ?s) =
      [\<lparr>res_product_id = ''OLJCESPC7Z'', res_quantity = 5, order_id = ''order-1'',
              reservation_id = ''r1'', res_status = ACTIVE, created_at = 0,
              expires_at = Some 1000000\<rparr>]"
    by (simp add: two_reservations_table stale_reservations_def stale_def is_expired_def)
  have e: "expire_reservations ?s (\<lambda>_. 2000000) =
     (int (length (stale_reservations 2000000 (reservations ?s))),
      ?s\<lparr>products := fold give_back (stale_reservations 2000000 (reservations ?s)) (products ?s),
        reservations := map (\<lambda>(k, r). (k, mark_expired 2000000 r)) (reservations ?s)\<rparr>)"
    using expire_reservations_stale_only [of ?s 2000000] by (rule conjunct1)
  have n: "fst (expire_reservations ?s (\<lambda>_. 2000000)) = 1"
    by (simp add: e st)
  have t: "map (\<lambda>(k, r). (k, res_status r, expires_at r))
      (reservations (snd (expire_reservations ?s (\<lambda>_. 2000000)))) =
      [(''r1'', EXPIRED, Some 1000000), (''r2'', ACTIVE, Some 6000000)]"
    by (simp add: e two_reservations_table mark_expired_def stale_def is_expired_def)
  have p: "map_option reserved
      (products (snd (expire_reservations ?s (\<lambda>_. 2000000))) ''OLJCESPC7Z'') = Some 7"
    by (simp add: e st give_back_def two_reservations_product)
  from n t p show ?thesis by (intro conjI)
qed

subsection \<open>C6: two sweeps in succession\<close>

text \<open>
  Claim C6: when \<^verbatim>\<open>expire_reservations\<close> runs at \<open>now1\<close> and then again at the same
  or a later time \<open>now2\<close>, every stale reservation is expired exactly once. The second
  sweep picks only reservations that the first one left active, its count is the number
  of those, the two counts add up to the number of reservations stale at \<open>now2\<close>, the
  counters are decremented once for each of them, and a second sweep at the same time
  returns 0 and changes nothing.
\<close>

theorem sweep_twice:
  assumes "now1 \<le> now2"
    and "expire_reservations s (\<lambda>_. now1) = (n1, s1)"
    and "expire_reservations s1 (\<lambda>_. now2) = (n2, s2)"
  shows "n2 = int (length (filter (\<lambda>r. stale now2 r \<and> \<not> stale now1 r) (map snd (reservations s)))) \<and>
         n1 + n2 = int (length (stale_reservations now2 (reservations s))) \<and>
         reservations s2 = map (\<lambda>(k, r). (k, mark_expired now2 r)) (reservations s) \<and>
         products s2 =
           fold give_back
             (stale_reservations now1 (reservations s) @
              filter (\<lambda>r. stale now2 r \<and> \<not> stale now1 r) (map snd (reservations s)))
             (products s) \<and>
         (now2 = now1 \<longrightarrow> n2 = 0 \<and> s2 = s1)"
proof -
  let ?rs = "reservations s"
  let ?late = "filter (\<lambda>r. stale now2 r \<and> \<not> stale now1 r) (map snd ?rs)"
  from assms(2) have n1: "n1 = int (length (stale_reservations now1 ?rs))"
    and rs1: "reservations s1 = map (\<lambda>(k, r). (k, mark_expired now1 r)) ?rs"
    and ps1: "products s1 = fold give_back (stale_reservations now1 ?rs) (products s)"
    by (auto simp: expire_reservations_constant_clock)
  have st: "stale_reservations now2 (reservations s1) = ?late"
    by (simp add: rs1 stale_reservations_marked)
  from assms(3) have n2: "n2 = int (length ?late)"
    and rs2: "reservations s2 = map (\<lambda>(k, r). (k, mark_expired now2 r)) (reservations s1)"
    and ps2: "products s2 = fold give_back ?late (products s1)"
    and s2: "s2 = s1\<lparr>products := fold give_back ?late (products s1),
                     reservations := map (\<lambda>(k, r). (k, mark_expired now2 r)) (reservations s1)\<rparr>"
    by (auto simp: expire_reservations_constant_clock st)
  have sum: "n1 + n2 = int (length (stale_reservations now2 ?rs))"
    using stale_count_split [OF assms(1), of "map snd ?rs"]
    by (simp add: n1 n2 stale_reservations_def)
  have tab: "reservations s2 = map (\<lambda>(k, r). (k, mark_expired now2 r)) ?rs"
    by (simp add: rs2 rs1 mark_expired_twice [OF assms(1)] case_prod_beta comp_def)
  have led: "products s2 = fold give_back (stale_reservations now1 ?rs @ ?late) (products s)"
    by (simp add: ps2 ps1)
  have same: "n2 = 0 \<and> s2 = s1" if "now2 = now1"
  proof -
    from that have e: "?late = []" by simp
    have "map (\<lambda>(k, r). (k, mark_expired now1 r)) (reservations s1) = reservations s1"
      using mark_expired_twice [of now1 now1]
      by (simp add: rs1 case_prod_beta comp_def)
    with s2 e that n2 show ?thesis by simp
  qed
  from n2 sum tab led same show ?thesis by blast
qed

theorem sweep_twice_witness:
  "(let s = snd (reserve (snd (reserve (InMemoryInventoryStore 1) ''OLJCESPC7Z'' 5 ''order-1'' 0 ''r1'' 0))
               ''OLJCESPC7Z'' 7 ''order-2'' 5000000 ''r2'' 5000000);
        (n1, s1) = expire_reservations s (\<lambda>_. 2000000);
        (n2, s2) = expire_reservations s1 (\<lambda>_. 7000000);
        (n3, s3) = expire_reservations s1 (\<lambda>_. 2000000)
    in (2000000 :: int) \<le> 7000000 \<and> n1 = 1 \<and> n2 = 1 \<and> n3 = 0 \<and> s3 = s1 \<and>
       map (\<lambda>(k, r). (k, res_status r)) (reservations s2) = [(''r1'', EXPIRED), (''r2'', EXPIRED)] \<and>
       map_option reserved (products s2 ''OLJCESPC7Z'') = Some 0)"
proof -
  let ?s = "snd (reserve (snd (reserve (InMemoryInventoryStore 1) ''OLJCESPC7Z'' 5 ''order-1'' 0 ''r1'' 0))
        ''OLJCESPC7Z'' 7 ''order-2'' 5000000 ''r2'' 5000000)"
  obtain n1 s1 where a: "expire_reservations ?s (\<lambda>_. 2000000) = (n1, s1)"
    by (cases "expire_reservations ?s (\<lambda>_. 2000000)")
  obtain n2 s2 where b: "expire_reservations s1 (\<lambda>_. 7000000) = (n2, s2)"
    by (cases "expire_reservations s1 (\<lambda>_. 7000000)")
  obtain n3 s3 where c: "expire_reservations s1 (\<lambda>_. 2000000) = (n3, s3)"
    by (cases "expire_reservations s1 (\<lambda>_. 2000000)")
  have later: "n2 = 1 \<and> n1 + n2 = 2 \<and>
      map (\<lambda>(k, r). (k, res_status r)) (reservations s2) = [(''r1'', EXPIRED), (''r2'', EXPIRED)] \<and>
      map_option reserved (products s2 ''OLJCESPC7Z'') = Some 0"
    using sweep_twice [OF _ a b]
    by (simp add: two_reservations_table two_reservations_product stale_reservations_def
        stale_def is_expired_def mark_expired_def give_back_def)
  have same: "n3 = 0 \<and> s3 = s1"
    using sweep_twice [OF _ a c] by simp
  from later same have "n1 = 1" by simp
  with a b c later same show ?thesis
    by (simp add: Let_def)
qed

subsection \<open>C7: release\<close>

text \<open>
  Claim C7: for every product identifier and quantity, \<^verbatim>\<open>release\<close> returns false
  if and only if the product is absent; when the product exists it sets
  \<open>reserved\<close> to \<open>max 0 (reserved - quantity)\<close>, changes nothing else and returns
  true, so that releasing more than is reserved leaves \<open>reserved = 0\<close>, and the counter
  is never negative afterwards.
\<close>

theorem release_clamps:
  "(fst (release s pid qty) = False \<longleftrightarrow> products s pid = None) \<and>
   (\<forall>p. products s pid = Some p \<longrightarrow>
      release s pid qty =
        (True, s\<lparr>products := (products s)(pid \<mapsto> p\<lparr>reserved := max 0 (reserved p - qty)\<rparr>)\<rparr>) \<and>
      (reserved p < qty \<longrightarrow>
         map_option reserved (products (snd (release s pid qty)) pid) = Some 0) \<and>
      map_option (\<lambda>p'. 0 \<le> reserved p') (products (snd (release s pid qty)) pid) = Some True)"
  by (auto simp: release_def split: option.splits)

theorem release_clamps_witness:
  "products (InMemoryInventoryStore 900) ''9SIQT8TOJO'' =
     Some (new_product ''9SIQT8TOJO'' ''Optical Tube Assembly'' 25) \<and>
   reserved (new_product ''9SIQT8TOJO'' ''Optical Tube Assembly'' 25) < 7 \<and>
   fst (release (InMemoryInventoryStore 900) ''9SIQT8TOJO'' 7) = True \<and>
   map_option reserved (products (snd (release (InMemoryInventoryStore 900) ''9SIQT8TOJO'' 7)) ''9SIQT8TOJO'') = Some 0 \<and>
   products (InMemoryInventoryStore 900) ''NONEXISTENT'' = None \<and>
   fst (release (InMemoryInventoryStore 900) ''NONEXISTENT'' 7) = False"
  using release_clamps [of "InMemoryInventoryStore 900" "''9SIQT8TOJO''" 7]
        release_clamps [of "InMemoryInventoryStore 900" "''NONEXISTENT''" 7]
  by (simp add: InMemoryInventoryStore_def catalog_def new_product_def)

subsection \<open>C8: reserve, then release\<close>

text \<open>
  Claim C8 says that, for every product, releasing \<open>q\<close> right after a successful
  reservation of \<open>q\<close> brings \<open>available\<close> and \<open>reserved\<close> back to their earlier
  values. The release clamps at zero, so this fails on a product whose counter is
  negative, a state the store reaches through a reservation of a negative quantity:
  with \<open>reserved = - 5\<close> on a product of quantity 100, reserving 3 and releasing 3
  ends with \<open>reserved = 0\<close> and \<open>available = 100\<close>, not \<open>- 5\<close> and \<open>105\<close>.
\<close>

theorem reserve_release_negative_counter_counterexample:
  "(let s = run (InMemoryInventoryStore 900) [Reserve ''OLJCESPC7Z'' (- 5) [] 0 ''r1'' 0];
        (r, s1) = reserve s ''OLJCESPC7Z'' 3 [] 0 ''r2'' 0;
        (ok, s2) = release s1 ''OLJCESPC7Z'' 3
    in r = Inr (Some \<lparr>res_product_id = ''OLJCESPC7Z'', res_quantity = 3, order_id = [],
                      reservation_id = ''r2'', res_status = ACTIVE, created_at = 0,
                      expires_at = Some 900000000\<rparr>) \<and>
       ok \<and>
       map_option reserved (products s ''OLJCESPC7Z'') = Some (- 5) \<and>
       map_option available (products s ''OLJCESPC7Z'') = Some 105 \<and>
       map_option reserved (products s2 ''OLJCESPC7Z'') = Some 0 \<and>
       map_option available (products s2 ''OLJCESPC7Z'') = Some 100)"
  by (simp add: run_def store_defs)

text \<open>
  Claim C8 as amended: for every product whose \<open>reserved\<close> counter is not negative and
  every quantity \<open>q\<close> for which \<^verbatim>\<open>reserve\<close> succeeds, releasing \<open>q\<close> on the same
  product right afterwards succeeds and returns the product dictionary, hence the
  product's \<open>available\<close> and \<open>reserved\<close>, to what it was before the reservation.
\<close>

theorem reserve_release_round_trip:
  assumes "products s pid = Some p" and "0 \<le> reserved p"
    and "reserve s pid q oid now_expiry new_id now_created = (Inr (Some r), s1)"
  shows "\<exists>s2. release s1 pid q = (True, s2) \<and>
              products s2 = products s \<and>
              map_option reserved (products s2 pid) = Some (reserved p) \<and>
              map_option available (products s2 pid) = Some (available p)"
proof -
  from assms(1,3) have s1: "products s1 = (products s)(pid \<mapsto> p\<lparr>reserved := reserved p + q\<rparr>)"
    by (auto simp: reserve_def Let_def split: if_splits sum.splits)
  have "(products s)(pid \<mapsto> p) = products s"
    using assms(1) by (rule map_upd_triv)
  with s1 assms(1,2) show ?thesis
    by (simp add: release_def)
qed

theorem reserve_release_round_trip_witness:
  "products (InMemoryInventoryStore 900) ''OLJCESPC7Z'' =
     Some (new_product ''OLJCESPC7Z'' ''National Park Foundation Explorascope'' 100) \<and>
   0 \<le> reserved (new_product ''OLJCESPC7Z'' ''National Park Foundation Explorascope'' 100) \<and>
   fst (reserve (InMemoryInventoryStore 900) ''OLJCESPC7Z'' 10 [] 0 ''r1'' 0) =
     Inr (Some \<lparr>res_product_id = ''OLJCESPC7Z'', res_quantity = 10, order_id = [],
                 reservation_id = ''r1'', res_status = ACTIVE, created_at = 0,
                 expires_at = Some 900000000\<rparr>) \<and>
   fst (release (snd (reserve (InMemoryInventoryStore 900) ''OLJCESPC7Z'' 10 [] 0 ''r1'' 0))
          ''OLJCESPC7Z'' 10) = True \<and>
   products (snd (release (snd (reserve (InMemoryInventoryStore 900) ''OLJCESPC7Z'' 10 [] 0 ''r1'' 0))
          ''OLJCESPC7Z'' 10)) = products (InMemoryInventoryStore 900)"
proof -
  have p: "products (InMemoryInventoryStore 900) ''OLJCESPC7Z'' =
      Some (new_product ''OLJCESPC7Z'' ''National Park Foundation Explorascope'' 100)"
    by (simp add: InMemoryInventoryStore_def catalog_def)
  have z: "0 \<le> reserved (new_product ''OLJCESPC7Z'' ''National Park Foundation Explorascope'' 100)"
    by (simp add: new_product_def)
  have t: "reservation_ttl (InMemoryInventoryStore 900) = 900"
    by (simp add: InMemoryInventoryStore_def)
  have f: "fst (reserve (InMemoryInventoryStore 900) ''OLJCESPC7Z'' 10 [] 0 ''r1'' 0) =
     Inr (Some \<lparr>res_product_id = ''OLJCESPC7Z'', res_quantity = 10, order_id = [],
                 reservation_id = ''r1'', res_status = ACTIVE, created_at = 0,
                 expires_at = Some 900000000\<rparr>)"
    by (simp add: reserve_def p t available_def new_product_def Let_def expiry_time_def
        timedelta_seconds_def datetime_add_def datetime_min_def datetime_max_def)
  then have r: "reserve (InMemoryInventoryStore 900) ''OLJCESPC7Z'' 10 [] 0 ''r1'' 0 =
      (Inr (Some \<lparr>res_product_id = ''OLJCESPC7Z'', res_quantity = 10, order_id = [],
                 reservation_id = ''r1'', res_status = ACTIVE, created_at = 0,
                 expires_at = Some 900000000\<rparr>),
       snd (reserve (InMemoryInventoryStore 900) ''OLJCESPC7Z'' 10 [] 0 ''r1'' 0))"
    by (cases "reserve (InMemoryInventoryStore 900) ''OLJCESPC7Z'' 10 [] 0 ''r1'' 0") auto
  from reserve_release_round_trip [OF p z r] p z f show ?thesis
    by auto
qed

subsection \<open>C9: derived fields and the low-stock scenario\<close>



subsection \<open>C10: a failed call changes nothing\<close>

text \<open>
  Claim C10: \<^verbatim>\<open>reserve\<close> fails (returns \<^verbatim>\<open>None\<close>, the outcome \<open>Inr None\<close>)
  exactly when the product is absent or its available stock is below the requested
  quantity, and then the store is the one it was: no counter is touched and the
  reservation table is the same. A \<^verbatim>\<open>release\<close> that returns false leaves the
  store unchanged as well.
\<close>

theorem failure_leaves_state:
  "(fst (reserve s pid qty oid now_expiry new_id now_created) = Inr None \<longleftrightarrow>
      (case products s pid of None \<Rightarrow> True | Some p \<Rightarrow> available p < qty)) \<and>
   (fst (reserve s pid qty oid now_expiry new_id now_created) = Inr None \<longrightarrow>
      snd (reserve s pid qty oid now_expiry new_id now_created) = s) \<and>
   (fst (release s pid qty') = False \<longrightarrow> snd (release s pid qty') = s)"
  by (auto simp: reserve_def release_def Let_def split: option.splits sum.splits)

theorem failure_leaves_state_witness:
  "fst (reserve (InMemoryInventoryStore 900) ''NONEXISTENT'' 1 [] 0 ''r1'' 0) = Inr None \<and>
   snd (reserve (InMemoryInventoryStore 900) ''NONEXISTENT'' 1 [] 0 ''r1'' 0) = InMemoryInventoryStore 900 \<and>
   fst (reserve (InMemoryInventoryStore 900) ''9SIQT8TOJO'' 9999 [] 0 ''r1'' 0) = Inr None \<and>
   snd (reserve (InMemoryInventoryStore 900) ''9SIQT8TOJO'' 9999 [] 0 ''r1'' 0) = InMemoryInventoryStore 900 \<and>
   fst (release (InMemoryInventoryStore 900) ''NONEXISTENT'' 1) = False \<and>
   snd (release (InMemoryInventoryStore 900) ''NONEXISTENT'' 1) = InMemoryInventoryStore 900"
proof -
  have a: "fst (reserve (InMemoryInventoryStore 900) ''NONEXISTENT'' 1 [] 0 ''r1'' 0) = Inr None"
    by (simp add: store_defs)
  have b: "fst (reserve (InMemoryInventoryStore 900) ''9SIQT8TOJO'' 9999 [] 0 ''r1'' 0) = Inr None"
    by (simp add: store_defs)
  have c: "fst (release (InMemoryInventoryStore 900) ''NONEXISTENT'' 1) = False"
    by (simp add: store_defs)
  from a b c
    failure_leaves_state [of "InMemoryInventoryStore 900" "''NONEXISTENT''" 1 "[]" 0 "''r1''" 0 1]
    failure_leaves_state [of "InMemoryInventoryStore 900" "''9SIQT8TOJO''" 9999 "[]" 0 "''r1''" 0 1]
  show ?thesis by simp
qed

end
